theory Spec2Isabelle
  imports Main
begin

section \<open>JavaScript values and the object store\<close>

text \<open>
  The helpers of \<^verbatim>\<open>frontend/src/utils/taskHelpers.ts\<close> take arguments of type
  \<^verbatim>\<open>any\<close>. A value is a primitive or a reference into a store of objects; an
  object is a plain object (its own data properties in insertion order, prototype
  \<^verbatim>\<open>Object.prototype\<close>), an object without a prototype (\<^verbatim>\<open>Object.create(null)\<close> with
  own data properties), an array, or a \<^verbatim>\<open>Date\<close>. Numbers are the integer-valued doubles
  and \<^verbatim>\<open>NaN\<close>: the module only tests numbers for truthiness.

  This is the universe of every statement below. Function values, accessor properties,
  proxies and objects with any other prototype are outside it, so reading a property
  runs no user code and finds no inherited data.
\<close>

type_synonym addr = nat

datatype jsval =
    JUndefined
  | JNull
  | JBool bool
  | JNum int
  | JNaN
  | JBigInt int
  | JStr string
  | JSymbol nat
  | JRef addr

datatype jsobj =
    Plain "(string \<times> jsval) list"
  | Bare "(string \<times> jsval) list"
  | Arr "jsval list"
  | DateObj jsval

type_synonym heap = "jsobj list"

datatype error = TypeError

text \<open>Sequencing of computations that may throw.\<close>

definition bnd :: "error + 'a \<Rightarrow> ('a \<Rightarrow> error + 'b) \<Rightarrow> error + 'b" where
  "bnd m f = (case m of Inl e \<Rightarrow> Inl e | Inr x \<Rightarrow> f x)"

text \<open>\<^verbatim>\<open>ToBoolean\<close>: what \<^verbatim>\<open>!x\<close>, \<^verbatim>\<open>if (x)\<close> and \<^verbatim>\<open>x || y\<close> test.\<close>

fun truthy :: "jsval \<Rightarrow> bool" where
  "truthy JUndefined = False"
| "truthy JNull = False"
| "truthy (JBool b) = b"
| "truthy (JNum n) = (n \<noteq> 0)"
| "truthy JNaN = False"
| "truthy (JBigInt n) = (n \<noteq> 0)"
| "truthy (JStr s) = (s \<noteq> [])"
| "truthy (JSymbol n) = True"
| "truthy (JRef a) = True"

text \<open>The store is a list of objects; an address is an index into it. An address beyond
  the store holds no properties.\<close>

definition deref :: "heap \<Rightarrow> addr \<Rightarrow> jsobj" where
  "deref h a = (if a < length h then h ! a else Plain [])"

definition alloc :: "heap \<Rightarrow> jsobj \<Rightarrow> heap \<times> jsval" where
  "alloc h ob = (h @ [ob], JRef (length h))"

text \<open>Decimal property names of array and string indices.\<close>

fun string_of_nat :: "nat \<Rightarrow> string" where
  "string_of_nat n =
     (if n < 10 then [''0123456789'' ! n]
      else string_of_nat (n div 10) @ [''0123456789'' ! (n mod 10)])"

declare string_of_nat.simps [simp del]

definition index_props :: "jsval list \<Rightarrow> (string \<times> jsval) list" where
  "index_props xs = zip (map string_of_nat [0..<length xs]) xs"

text \<open>Own enumerable string-keyed properties: what the spread \<^verbatim>\<open>{...v}\<close> copies.\<close>

fun enum_props_obj :: "jsobj \<Rightarrow> (string \<times> jsval) list" where
  "enum_props_obj (Plain ps) = ps"
| "enum_props_obj (Bare ps) = ps"
| "enum_props_obj (Arr xs) = index_props xs"
| "enum_props_obj (DateObj v) = []"

fun spread :: "heap \<Rightarrow> jsval \<Rightarrow> (string \<times> jsval) list" where
  "spread h (JRef a) = enum_props_obj (deref h a)"
| "spread h (JStr s) = index_props (map (\<lambda>c. JStr [c]) s)"
| "spread h v = []"

text \<open>The \<^verbatim>\<open>length\<close> of an array or a string: an own property that is not enumerable.\<close>

fun length_prop :: "heap \<Rightarrow> jsval \<Rightarrow> jsval option" where
  "length_prop h (JRef a) =
     (case deref h a of Arr xs \<Rightarrow> Some (JNum (int (length xs))) | _ \<Rightarrow> None)"
| "length_prop h (JStr s) = Some (JNum (int (length s)))"
| "length_prop h v = None"

text \<open>
  The value of the own property \<^verbatim>\<open>k\<close> of \<^verbatim>\<open>v\<close>, \<^verbatim>\<open>undefined\<close> when there is none.
  The built-in prototypes define only methods and none of the data keys that the module
  reads, so no inherited property is ever found.
\<close>

definition own_prop :: "heap \<Rightarrow> jsval \<Rightarrow> string \<Rightarrow> jsval" where
  "own_prop h v k =
     (case map_of (spread h v) k of
        Some x \<Rightarrow> x
      | None \<Rightarrow>
          (if k = ''length''
           then (case length_prop h v of Some n \<Rightarrow> n | None \<Rightarrow> JUndefined)
           else JUndefined))"

text \<open>Property read \<^verbatim>\<open>v.k\<close>: it throws on \<^verbatim>\<open>undefined\<close> and on \<^verbatim>\<open>null\<close>.\<close>

definition get_prop :: "heap \<Rightarrow> jsval \<Rightarrow> string \<Rightarrow> error + jsval" where
  "get_prop h v k =
     (if v = JUndefined \<or> v = JNull then Inl TypeError else Inr (own_prop h v k))"

text \<open>Optional chaining \<^verbatim>\<open>v?.k\<close>.\<close>

definition opt_get :: "heap \<Rightarrow> jsval \<Rightarrow> string \<Rightarrow> error + jsval" where
  "opt_get h v k =
     (if v = JUndefined \<or> v = JNull then Inr JUndefined else get_prop h v k)"

text \<open>A chained read \<^verbatim>\<open>v.k1.k2\<close>.\<close>

definition get_prop2 :: "heap \<Rightarrow> jsval \<Rightarrow> string \<Rightarrow> string \<Rightarrow> error + jsval" where
  "get_prop2 h v k1 k2 = bnd (get_prop h v k1) (\<lambda>x. get_prop h x k2)"

text \<open>\<^verbatim>\<open>a || b\<close>: the right operand is evaluated only when the left one is falsy.\<close>

definition js_or :: "error + jsval \<Rightarrow> error + jsval \<Rightarrow> error + jsval" where
  "js_or a b = (case a of Inl e \<Rightarrow> Inl e | Inr x \<Rightarrow> if truthy x then Inr x else b)"

text \<open>Writing a property of an object literal under construction.\<close>

fun put_prop :: "string \<Rightarrow> jsval \<Rightarrow> (string \<times> jsval) list \<Rightarrow> (string \<times> jsval) list" where
  "put_prop k v [] = [(k, v)]"
| "put_prop k v (p # ps) = (if fst p = k then (k, v) # ps else p # put_prop k v ps)"

section \<open>The helpers\<close>

definition getFileId :: "heap \<Rightarrow> jsval \<Rightarrow> error + jsval" where
  "getFileId h item =
     (if \<not> truthy item then Inr JNull
      else
        js_or (get_prop h item ''file_id'')
       (js_or (get_prop h item ''permit_file_id'')
       (js_or (bnd (get_prop h item ''source'') (\<lambda>s. opt_get h s ''permit_file_id''))
       (js_or (bnd (get_prop h item ''source'') (\<lambda>s. opt_get h s ''file_id''))
              (Inr JNull)))))"

definition isStandaloneTask :: "heap \<Rightarrow> jsval \<Rightarrow> error + bool" where
  "isStandaloneTask h task =
     (if \<not> truthy task then Inr False
      else
        bnd (get_prop h task ''tracking_mode'') (\<lambda>m.
          if m = JStr ''STANDALONE'' then Inr True
          else bnd (get_prop h task ''tracking_mode'') (\<lambda>m'.
            if m' = JStr ''FILE_BASED'' then Inr False
            else bnd (getFileId h task) (\<lambda>f. Inr (\<not> truthy f)))))"

definition getTrackingMode :: "heap \<Rightarrow> jsval \<Rightarrow> error + jsval" where
  "getTrackingMode h task =
     (if \<not> truthy task then Inr (JStr ''STANDALONE'')
      else
        bnd (get_prop h task ''tracking_mode'') (\<lambda>m.
          if truthy m then get_prop h task ''tracking_mode''
          else bnd (getFileId h task) (\<lambda>f.
            Inr (if truthy f then JStr ''FILE_BASED'' else JStr ''STANDALONE''))))"

text \<open>The properties of the object literal that \<^verbatim>\<open>normalizeTask\<close> returns.\<close>

definition normalized_props :: "heap \<Rightarrow> jsval \<Rightarrow> error + (string \<times> jsval) list" where
  "normalized_props h task =
     bnd (getFileId h task) (\<lambda>fileId.
     bnd (getTrackingMode h task) (\<lambda>trackingMode.
     bnd (js_or (get_prop h task ''assigned_to'')
         (js_or (get_prop h task ''assignment'')
                (get_prop h task ''employee_code''))) (\<lambda>assigned.
       Inr (put_prop ''assigned_to'' assigned
           (put_prop ''tracking_mode'' trackingMode
           (put_prop ''file_id'' fileId
           (spread h task)))))))"

definition normalizeTask :: "heap \<Rightarrow> jsval \<Rightarrow> error + heap \<times> jsval" where
  "normalizeTask h task =
     (if \<not> truthy task then Inr (h, task)
      else bnd (normalized_props h task) (\<lambda>ps. Inr (alloc h (Plain ps))))"

text \<open>\<^verbatim>\<open>tasks.map(normalizeTask)\<close>: the calls run in index order, each on the store the
  previous one left. The result array is placed in the store after its elements; the
  order in which fresh addresses are handed out cannot be observed.\<close>

fun map_normalizeTask :: "heap \<Rightarrow> jsval list \<Rightarrow> error + heap \<times> jsval list" where
  "map_normalizeTask h [] = Inr (h, [])"
| "map_normalizeTask h (x # xs) =
     bnd (normalizeTask h x) (\<lambda>r1.
     bnd (map_normalizeTask (fst r1) xs) (\<lambda>r2.
       Inr (fst r2, snd r1 # snd r2)))"

fun array_elems :: "heap \<Rightarrow> jsval \<Rightarrow> jsval list option" where
  "array_elems h (JRef a) = (case deref h a of Arr xs \<Rightarrow> Some xs | _ \<Rightarrow> None)"
| "array_elems h v = None"

definition normalizeTasks :: "heap \<Rightarrow> jsval \<Rightarrow> error + heap \<times> jsval" where
  "normalizeTasks h tasks =
     (case array_elems h tasks of
        None \<Rightarrow> Inr (alloc h (Arr []))
      | Some xs \<Rightarrow>
          bnd (map_normalizeTask h xs) (\<lambda>r. Inr (alloc (fst r) (Arr (snd r)))))"


text \<open>
  \<^verbatim>\<open>new Date(v)\<close> converts its argument with \<^verbatim>\<open>ToPrimitive\<close> and, unless that yields a
  string, \<^verbatim>\<open>ToNumber\<close>. \<^verbatim>\<open>ToNumber\<close> throws on a Symbol and on a BigInt.
  \<^verbatim>\<open>ToPrimitive\<close> of a plain object calls \<^verbatim>\<open>valueOf\<close> and \<^verbatim>\<open>toString\<close>: the inherited
  \<^verbatim>\<open>valueOf\<close> returns the object, the inherited \<^verbatim>\<open>toString\<close> returns a string, and an
  own property of that name is not callable here and is skipped, so the conversion
  throws exactly when the object has an own \<^verbatim>\<open>toString\<close>. An object without a
  prototype inherits neither method, so its conversion always throws. An array is
  converted by
  \<^verbatim>\<open>join\<close>, which converts each element other than \<^verbatim>\<open>undefined\<close> and \<^verbatim>\<open>null\<close> to a
  string. The first argument bounds the depth of nested arrays: \<open>date_arg_ok\<close> starts
  it at the size of the store, which no chain of distinct arrays exceeds, and an array
  met again inside itself contributes the empty string, as engines implement \<^verbatim>\<open>join\<close>.
\<close>

fun to_string_ok :: "nat \<Rightarrow> heap \<Rightarrow> jsval \<Rightarrow> bool" where
  "to_string_ok n h (JSymbol s) = False"
| "to_string_ok n h (JRef a) =
     (case deref h a of
        Plain ps \<Rightarrow> map_of ps ''toString'' = None
      | Bare ps \<Rightarrow> False
      | DateObj v \<Rightarrow> True
      | Arr xs \<Rightarrow> (case n of 0 \<Rightarrow> True | Suc m \<Rightarrow> list_all (to_string_ok m h) xs))"
| "to_string_ok n h v = True"

definition date_arg_ok :: "heap \<Rightarrow> jsval \<Rightarrow> bool" where
  "date_arg_ok h v = (case v of JBigInt n \<Rightarrow> False | _ \<Rightarrow> to_string_ok (length h) h v)"

text \<open>The time value of the new \<^verbatim>\<open>Date\<close> is not computed: the object records the
  argument it was built from.\<close>

definition new_Date :: "heap \<Rightarrow> jsval \<Rightarrow> error + heap \<times> jsval" where
  "new_Date h v = (if date_arg_ok h v then Inr (alloc h (DateObj v)) else Inl TypeError)"

definition getAssignmentInfo :: "heap \<Rightarrow> jsval \<Rightarrow> error + heap \<times> jsval" where
  "getAssignmentInfo h file =
     (if \<not> truthy file then Inr (h, JNull)
      else
        bnd (get_prop h file ''current_assignment'') (\<lambda>ca.
          if truthy ca then
            bnd (get_prop2 h file ''current_assignment'' ''employee_code'') (\<lambda>code.
            bnd (get_prop2 h file ''current_assignment'' ''employee_name'') (\<lambda>name.
            bnd (get_prop2 h file ''current_assignment'' ''assigned_at'') (\<lambda>at.
            bnd (new_Date h at) (\<lambda>d.
            bnd (get_prop2 (fst d) file ''current_assignment'' ''stage'') (\<lambda>stage.
              Inr (alloc (fst d) (Plain
                [(''assignedTo'', code), (''assignedToName'', name),
                 (''assignedAt'', snd d), (''stage'', stage)])))))))
          else
            bnd (get_prop h file ''assignment'') (\<lambda>la.
              if truthy la then
                bnd (get_prop2 h file ''assignment'' ''assigned_to'') (\<lambda>code.
                bnd (get_prop2 h file ''assignment'' ''assigned_at'') (\<lambda>at.
                bnd (new_Date h at) (\<lambda>d.
                bnd (get_prop2 (fst d) file ''assignment'' ''assigned_for_stage'') (\<lambda>stage.
                  Inr (alloc (fst d) (Plain
                    [(''assignedTo'', code), (''assignedToName'', JUndefined),
                     (''assignedAt'', snd d), (''stage'', stage)]))))))
              else Inr (h, JNull))))"

definition getAssignedTo :: "heap \<Rightarrow> jsval \<Rightarrow> error + jsval" where
  "getAssignedTo h task =
     (if \<not> truthy task then Inr JNull
      else
        js_or (get_prop h task ''assigned_to'')
       (js_or (get_prop h task ''assignment'')
       (js_or (get_prop h task ''employee_code'')
       (js_or (get_prop h task ''assigned_to_employee_code'')
              (Inr JNull)))))"



section \<open>Stores without dangling references\<close>

fun val_ok :: "heap \<Rightarrow> jsval \<Rightarrow> bool" where
  "val_ok h (JRef a) = (a < length h)"
| "val_ok h v = True"

fun obj_ok :: "heap \<Rightarrow> jsobj \<Rightarrow> bool" where
  "obj_ok h (Plain ps) = list_all (val_ok h) (map snd ps)"
| "obj_ok h (Bare ps) = list_all (val_ok h) (map snd ps)"
| "obj_ok h (Arr xs) = list_all (val_ok h) xs"
| "obj_ok h (DateObj v) = val_ok h v"

definition heap_closed :: "heap \<Rightarrow> bool" where
  "heap_closed h = list_all (obj_ok h) h"

section \<open>Notions used to state the properties\<close>


text \<open>
  \<open>normalized_copy h x h' y\<close>: in the store \<open>h'\<close>, the value \<open>y\<close> is what
  \<^verbatim>\<open>normalizeTask\<close> returns for \<open>x\<close> in the store \<open>h\<close>: the same primitive, or a
  reference to an object allocated after \<open>h\<close> that has the same content.
\<close>

definition normalized_copy :: "heap \<Rightarrow> jsval \<Rightarrow> heap \<Rightarrow> jsval \<Rightarrow> bool" where
  "normalized_copy h x h' y =
     (case normalizeTask h x of
        Inl e \<Rightarrow> False
      | Inr res \<Rightarrow>
          (case snd res of
             JRef a \<Rightarrow>
               (case y of
                  JRef b \<Rightarrow> length h \<le> b \<and> deref h' b = deref (fst res) a
                | _ \<Rightarrow> False)
           | _ \<Rightarrow> y = snd res))"

section \<open>Example stores\<close>

text \<open>\<^verbatim>\<open>{ tracking_mode: "ARCHIVED" }\<close>\<close>

definition invalid_mode_store :: heap where
  "invalid_mode_store = [Plain [(''tracking_mode'', JStr ''ARCHIVED'')]]"

text \<open>\<^verbatim>\<open>{ source: { file_id: "CUR", permit_file_id: "LEG" } }\<close>, the outer object at
  address 1.\<close>

definition nested_both_store :: heap where
  "nested_both_store =
     [Plain [(''file_id'', JStr ''CUR''), (''permit_file_id'', JStr ''LEG'')],
      Plain [(''source'', JRef 0)]]"

text \<open>\<^verbatim>\<open>{ assigned_to_employee_code: "E7" }\<close>\<close>

definition fourth_field_store :: heap where
  "fourth_field_store = [Plain [(''assigned_to_employee_code'', JStr ''E7'')]]"

text \<open>A migrated record that still carries every legacy and nested identifier, at
  address 1.\<close>

definition migrated_store :: heap where
  "migrated_store =
     [Plain [(''file_id'', JStr ''OLD2''), (''permit_file_id'', JStr ''OLD3'')],
      Plain [(''file_id'', JStr ''F2''), (''permit_file_id'', JStr ''OLD1''),
             (''source'', JRef 0)]]"

text \<open>\<^verbatim>\<open>{ permit_file_id: "F1", title: "Survey" }\<close>\<close>

definition legacy_store :: heap where
  "legacy_store = [Plain [(''permit_file_id'', JStr ''F1''), (''title'', JStr ''Survey'')]]"

text \<open>The array \<^verbatim>\<open>[{ permit_file_id: "F1" }, null, "ab"]\<close>, at address 1.\<close>

definition task_list_store :: heap where
  "task_list_store =
     [Plain [(''permit_file_id'', JStr ''F1'')], Arr [JRef 0, JNull, JStr ''ab'']]"

text \<open>A file with only the legacy \<^verbatim>\<open>assignment\<close> object, at address 1.\<close>

definition legacy_assignment_store :: heap where
  "legacy_assignment_store =
     [Plain [(''assigned_to'', JStr ''E1''),
             (''assigned_at'', JStr ''2024-01-01T00:00:00Z''),
             (''assigned_for_stage'', JStr ''review'')],
      Plain [(''assignment'', JRef 0)]]"

text \<open>A file with both assignment objects, at address 2.\<close>

definition both_assignments_store :: heap where
  "both_assignments_store =
     [Plain [(''assigned_to'', JStr ''E1''), (''assigned_at'', JNum 5),
             (''assigned_for_stage'', JStr ''review'')],
      Plain [(''employee_code'', JStr ''E2''), (''employee_name'', JStr ''Ann''),
             (''assigned_at'', JNum 7), (''stage'', JStr ''qa'')],
      Plain [(''assignment'', JRef 0), (''current_assignment'', JRef 1)]]"



section \<open>Basic facts\<close>

lemma bnd_Inr [simp]: "bnd (Inr x) f = f x"
  by (simp add: bnd_def)

lemma bnd_Inl [simp]: "bnd (Inl e) f = Inl e"
  by (simp add: bnd_def)

lemma js_or_Inr [simp]: "js_or (Inr x) b = (if truthy x then Inr x else b)"
  by (simp add: js_or_def)

lemma truthy_not_absent: "truthy v \<Longrightarrow> v \<noteq> JUndefined \<and> v \<noteq> JNull"
  by (cases v) simp_all

lemma get_prop_truthy [simp]: "truthy v \<Longrightarrow> get_prop h v k = Inr (own_prop h v k)"
  by (simp add: get_prop_def truthy_not_absent)

lemma get_prop_ref [simp]: "get_prop h (JRef a) k = Inr (own_prop h (JRef a) k)"
  by (simp add: get_prop_def)

lemma opt_get_total: "opt_get h v k = Inr (if v = JUndefined \<or> v = JNull then JUndefined else own_prop h v k)"
  by (simp add: opt_get_def get_prop_def)

lemma map_of_put_prop: "map_of (put_prop k v ps) = (map_of ps)(k \<mapsto> v)"
  by (induction ps) (auto simp: fun_eq_iff)

lemma error_is_TypeError: "(e :: error) = TypeError"
  by (cases e) simp

subsection \<open>Reads survive allocation\<close>

lemma deref_append: "a < length h \<Longrightarrow> deref (h @ e) a = deref h a"
  by (simp add: deref_def nth_append)

lemma deref_fresh [simp]: "deref (h @ ob # e) (length h) = ob"
  by (simp add: deref_def nth_append)

lemma deref_dangling: "\<not> a < length h \<Longrightarrow> deref h a = Plain []"
  by (simp add: deref_def)

lemma val_ok_append: "val_ok h v \<Longrightarrow> val_ok (h @ e) v"
  by (cases v) simp_all

lemma spread_append: "val_ok h v \<Longrightarrow> spread (h @ e) v = spread h v"
  by (cases v) (simp_all add: deref_append)

lemma length_prop_append: "val_ok h v \<Longrightarrow> length_prop (h @ e) v = length_prop h v"
  by (cases v) (simp_all add: deref_append)

lemma own_prop_append:
  assumes "val_ok h v"
  shows "own_prop (h @ e) v k = own_prop h v k"
  unfolding own_prop_def spread_append [OF assms] length_prop_append [OF assms] ..

lemma own_prop_dangling: "\<not> val_ok h v \<Longrightarrow> own_prop h v k = JUndefined"
  by (cases v) (simp_all add: own_prop_def deref_dangling)

subsection \<open>Closed stores\<close>

lemma map_of_in_values: "map_of ps k = Some x \<Longrightarrow> x \<in> set (map snd ps)"
  by (induction ps) (auto split: if_splits)

lemma index_props_values: "set (map snd (index_props xs)) \<subseteq> set xs"
  by (auto simp: index_props_def dest: set_zip_rightD)

lemma deref_obj_ok: "heap_closed h \<Longrightarrow> obj_ok h (deref h a)"
  by (auto simp: heap_closed_def deref_def list_all_iff)

lemma spread_val_ok:
  assumes "heap_closed h" and "x \<in> set (map snd (spread h v))"
  shows "val_ok h x"
proof (cases v)
  case (JRef a)
  have ok: "obj_ok h (deref h a)" using assms(1) by (rule deref_obj_ok)
  show ?thesis
  proof (cases "deref h a")
    case (Plain ps)
    with ok assms(2) JRef show ?thesis by (auto simp: list_all_iff)
  next
    case (Bare ps)
    with ok assms(2) JRef show ?thesis by (auto simp: list_all_iff)
  next
    case (Arr xs)
    with assms(2) JRef have "x \<in> set xs" using index_props_values [of xs] by auto
    with ok Arr show ?thesis by (simp add: list_all_iff)
  next
    case (DateObj d)
    with assms(2) JRef show ?thesis by simp
  qed
next
  case (JStr s)
  with assms(2) have "x \<in> set (map (\<lambda>c. JStr [c]) s)"
    using index_props_values [of "map (\<lambda>c. JStr [c]) s"] by auto
  then show ?thesis by auto
qed (use assms(2) in simp_all)

lemma own_prop_val_ok: "heap_closed h \<Longrightarrow> val_ok h (own_prop h v k)"
proof -
  assume c: "heap_closed h"
  have len: "val_ok h (case length_prop h v of Some n \<Rightarrow> n | None \<Rightarrow> JUndefined)"
    by (cases v) (auto split: jsobj.splits)
  show ?thesis
  proof (cases "map_of (spread h v) k")
    case None
    with len show ?thesis by (simp add: own_prop_def)
  next
    case (Some x)
    then have "val_ok h x" using spread_val_ok [OF c] map_of_in_values by fast
    with Some show ?thesis by (simp add: own_prop_def)
  qed
qed

subsection \<open>The readers return, and do not depend on later allocations\<close>

lemma getFileId_total: "\<exists>v. getFileId h item = Inr v"
  by (simp add: getFileId_def opt_get_total)

lemma getTrackingMode_total: "\<exists>v. getTrackingMode h task = Inr v"
proof (cases "truthy task")
  case True
  obtain f where "getFileId h task = Inr f" using getFileId_total by blast
  with True show ?thesis by (simp add: getTrackingMode_def)
qed (simp add: getTrackingMode_def)

lemma normalized_props_total: "truthy task \<Longrightarrow> \<exists>ps. normalized_props h task = Inr ps"
proof -
  assume t: "truthy task"
  obtain f where f: "getFileId h task = Inr f" using getFileId_total by blast
  obtain m where m: "getTrackingMode h task = Inr m" using getTrackingMode_total by blast
  from t f m show ?thesis by (simp add: normalized_props_def)
qed

lemma opt_get_append: "val_ok h v \<Longrightarrow> opt_get (h @ e) v k = opt_get h v k"
  by (simp add: opt_get_total own_prop_append)

lemma getFileId_append:
  assumes "heap_closed h" and "val_ok h item"
  shows "getFileId (h @ e) item = getFileId h item"
proof -
  have "val_ok h (own_prop h item ''source'')"
    using assms(1) by (rule own_prop_val_ok)
  then show ?thesis
    using assms(2) by (simp add: getFileId_def own_prop_append opt_get_append)
qed

lemma getTrackingMode_append:
  assumes "heap_closed h" and "val_ok h task"
  shows "getTrackingMode (h @ e) task = getTrackingMode h task"
  using assms by (simp add: getTrackingMode_def getFileId_append own_prop_append)

lemma normalized_props_append:
  assumes "heap_closed h" and "val_ok h task"
  shows "normalized_props (h @ e) task = normalized_props h task"
proof (cases "truthy task")
  case True
  with assms show ?thesis
    by (simp add: normalized_props_def getFileId_append getTrackingMode_append
          own_prop_append spread_append)
next
  case False
  then have "spread (h @ e) task = spread h task"
    using assms(2) by (simp add: spread_append)
  moreover have "get_prop (h @ e) task k = get_prop h task k" for k
    using assms(2) by (simp add: get_prop_def own_prop_append)
  ultimately show ?thesis
    using assms by (simp add: normalized_props_def getFileId_append getTrackingMode_append)
qed

lemma normalizeTask_truthy:
  "truthy task \<Longrightarrow> normalized_props h task = Inr ps \<Longrightarrow>
     normalizeTask h task = Inr (h @ [Plain ps], JRef (length h))"
  by (simp add: normalizeTask_def alloc_def)

lemma normalized_props_lookup:
  assumes "normalized_props h task = Inr ps"
    and "k \<noteq> ''file_id''" and "k \<noteq> ''tracking_mode''" and "k \<noteq> ''assigned_to''"
  shows "map_of ps k = map_of (spread h task) k"
  using assms
  by (auto simp: normalized_props_def bnd_def map_of_put_prop split: sum.splits)

lemma normalized_props_file_id:
  assumes "normalized_props h task = Inr ps"
  shows "\<exists>f. getFileId h task = Inr f \<and> map_of ps ''file_id'' = Some f"
  using assms
  by (auto simp: normalized_props_def bnd_def map_of_put_prop split: sum.splits)

lemma own_prop_fresh:
  "k \<noteq> ''length'' \<Longrightarrow>
     own_prop (h @ [Plain ps]) (JRef (length h)) k =
       (case map_of ps k of Some x \<Rightarrow> x | None \<Rightarrow> JUndefined)"
  by (simp add: own_prop_def)

lemma own_prop_not_length:
  "k \<noteq> ''length'' \<Longrightarrow>
     own_prop h v k = (case map_of (spread h v) k of Some x \<Rightarrow> x | None \<Rightarrow> JUndefined)"
  by (simp add: own_prop_def)

lemma own_prop_normalized:
  assumes "normalized_props h task = Inr ps"
    and "k \<noteq> ''file_id''" and "k \<noteq> ''tracking_mode''" and "k \<noteq> ''assigned_to''"
    and "k \<noteq> ''length''"
  shows "own_prop (h @ [Plain ps]) (JRef (length h)) k = own_prop h task k"
  using normalized_props_lookup [OF assms(1-4)] assms(5)
  by (simp add: own_prop_fresh own_prop_not_length)

lemma legacy_store_closed: "heap_closed legacy_store \<and> val_ok legacy_store (JRef 0)"
  by (simp add: legacy_store_def heap_closed_def)

lemma normalizeTask_falsy: "\<not> truthy x \<Longrightarrow> normalizeTask h x = Inr (h, x)"
  by (simp add: normalizeTask_def)

lemma normalized_copy_falsy: "\<not> truthy x \<Longrightarrow> normalized_copy h x h' y = (y = x)"
  by (cases x) (simp_all add: normalized_copy_def normalizeTask_falsy)

lemma normalized_copy_truthy:
  assumes "truthy x" and "normalized_props h x = Inr ps"
  shows "normalized_copy h x h' y = (\<exists>b. y = JRef b \<and> length h \<le> b \<and> deref h' b = Plain ps)"
  using deref_fresh [of h "Plain ps" "[]"]
  by (cases y) (simp_all add: normalized_copy_def normalizeTask_truthy [OF assms])

lemma normalized_copy_append:
  assumes "normalized_copy h x h' y" and "val_ok h' y"
  shows "normalized_copy h x (h' @ e) y"
proof (cases "truthy x")
  case False
  with assms(1) show ?thesis by (simp add: normalized_copy_falsy)
next
  case True
  obtain ps where ps: "normalized_props h x = Inr ps"
    using normalized_props_total [OF True] by blast
  from assms show ?thesis
    by (auto simp: normalized_copy_truthy [OF True ps] deref_append)
qed

lemma map_normalizeTask_elementwise:
  assumes "heap_closed h" and "list_all (val_ok h) xs"
  shows "\<exists>hf ys. map_normalizeTask (h @ e) xs = Inr (hf, ys)
           \<and> (\<exists>e'. hf = h @ e @ e')
           \<and> list_all (val_ok hf) ys
           \<and> list_all2 (\<lambda>x y. normalized_copy h x hf y) xs ys"
  using assms(2)
proof (induction xs arbitrary: e)
  case Nil
  then show ?case by simp
next
  case (Cons x xs)
  then have x_ok: "val_ok h x" and xs_ok: "list_all (val_ok h) xs"
    by simp_all
  show ?case
  proof (cases "truthy x")
    case False
    from Cons.IH [OF xs_ok, of e] obtain hf ys e' where
      run: "map_normalizeTask (h @ e) xs = Inr (hf, ys)" and hf: "hf = h @ e @ e'"
      and ok: "list_all (val_ok hf) ys"
      and rel: "list_all2 (\<lambda>x y. normalized_copy h x hf y) xs ys"
      by blast
    have "val_ok hf x"
      using x_ok hf by (simp add: val_ok_append)
    with False run hf ok rel show ?thesis
      by (simp add: normalizeTask_falsy normalized_copy_falsy)
  next
    case True
    obtain ps where ps: "normalized_props h x = Inr ps"
      using normalized_props_total [OF True] by blast
    have ps': "normalized_props (h @ e) x = Inr ps"
      using ps normalized_props_append [OF assms(1) x_ok] by simp
    let ?b = "length (h @ e)"
    have step: "normalizeTask (h @ e) x = Inr ((h @ e) @ [Plain ps], JRef ?b)"
      using True ps' by (rule normalizeTask_truthy)
    from Cons.IH [OF xs_ok, of "e @ [Plain ps]"] obtain hf ys e' where
      run: "map_normalizeTask (h @ e @ [Plain ps]) xs = Inr (hf, ys)"
      and hf: "hf = h @ (e @ [Plain ps]) @ e'"
      and ok: "list_all (val_ok hf) ys"
      and rel: "list_all2 (\<lambda>x y. normalized_copy h x hf y) xs ys"
      by blast
    have hf': "hf = (h @ e) @ Plain ps # e'"
      using hf by simp
    have "deref hf ?b = Plain ps"
      unfolding hf' by (rule deref_fresh)
    moreover have "length h \<le> ?b" by simp
    ultimately have head: "normalized_copy h x hf (JRef ?b)"
      by (simp add: normalized_copy_truthy [OF True ps])
    have "val_ok hf (JRef ?b)"
      using hf' by simp
    moreover have "\<exists>e''. hf = h @ e @ e''"
      using hf by simp
    ultimately show ?thesis
      using step run ok rel head by simp
  qed
qed

lemma array_elems_ok:
  assumes "heap_closed h" and "array_elems h tasks = Some xs"
  shows "list_all (val_ok h) xs"
proof (cases tasks)
  case (JRef a)
  with assms(2) have "deref h a = Arr xs"
    by (simp split: jsobj.splits)
  with deref_obj_ok [OF assms(1), of a] show ?thesis by simp
qed (use assms(2) in simp_all)

lemma task_list_store_closed: "heap_closed task_list_store"
  by (simp add: task_list_store_def heap_closed_def)

subsection \<open>Assignment information\<close>

lemma get_prop2_truthy:
  "truthy v \<Longrightarrow> truthy (own_prop h v k1) \<Longrightarrow>
     get_prop2 h v k1 k2 = Inr (own_prop h (own_prop h v k1) k2)"
  by (simp add: get_prop2_def)

lemma own_prop_truthy_append:
  assumes "truthy (own_prop h v k)"
  shows "own_prop (h @ e) v k = own_prop h v k"
proof (cases "val_ok h v")
  case True
  then show ?thesis by (rule own_prop_append)
next
  case False
  with assms show ?thesis by (simp add: own_prop_dangling)
qed

lemma get_prop2_truthy_append:
  assumes "truthy v" and "truthy (own_prop h v k1)"
  shows "get_prop2 (h @ e) v k1 k2 = Inr (own_prop (h @ e) (own_prop h v k1) k2)"
  using assms by (simp add: get_prop2_def own_prop_truthy_append)

lemma getAssignmentInfo_current:
  assumes "truthy file" and "truthy (own_prop h file ''current_assignment'')"
  shows "getAssignmentInfo h file =
     (let ca = own_prop h file ''current_assignment''; at = own_prop h ca ''assigned_at''
      in if date_arg_ok h at
         then Inr (h @ [DateObj at,
                        Plain [(''assignedTo'', own_prop h ca ''employee_code''),
                               (''assignedToName'', own_prop h ca ''employee_name''),
                               (''assignedAt'', JRef (length h)),
                               (''stage'', own_prop (h @ [DateObj at]) ca ''stage'')]],
                  JRef (Suc (length h)))
         else Inl TypeError)"
  using assms
  by (simp add: getAssignmentInfo_def get_prop2_truthy get_prop2_truthy_append
        new_Date_def alloc_def Let_def)

lemma getAssignmentInfo_legacy:
  assumes "truthy file" and "\<not> truthy (own_prop h file ''current_assignment'')"
    and "truthy (own_prop h file ''assignment'')"
  shows "getAssignmentInfo h file =
     (let la = own_prop h file ''assignment''; at = own_prop h la ''assigned_at''
      in if date_arg_ok h at
         then Inr (h @ [DateObj at,
                        Plain [(''assignedTo'', own_prop h la ''assigned_to''),
                               (''assignedToName'', JUndefined),
                               (''assignedAt'', JRef (length h)),
                               (''stage'', own_prop (h @ [DateObj at]) la ''assigned_for_stage'')]],
                  JRef (Suc (length h)))
         else Inl TypeError)"
  using assms
  by (simp add: getAssignmentInfo_def get_prop2_truthy get_prop2_truthy_append
        new_Date_def alloc_def Let_def)

lemma getAssignmentInfo_none:
  assumes "\<not> truthy file \<or> \<not> truthy (own_prop h file ''current_assignment'')
             \<and> \<not> truthy (own_prop h file ''assignment'')"
  shows "getAssignmentInfo h file = Inr (h, JNull)"
  using assms by (auto simp: getAssignmentInfo_def)

lemma legacy_assignment_store_closed:
  "heap_closed legacy_assignment_store \<and> val_ok legacy_assignment_store (JRef 1)"
  by (simp add: legacy_assignment_store_def heap_closed_def)

lemma both_assignments_store_closed:
  "heap_closed both_assignments_store \<and> val_ok both_assignments_store (JRef 2)"
  by (simp add: both_assignments_store_def heap_closed_def)

subsection \<open>Totality\<close>



section \<open>Properties of the helpers\<close>

subsection \<open>Tracking mode\<close>


text \<open>
  C1. The contract of \<^verbatim>\<open>getTrackingMode\<close> asks that an explicit \<^verbatim>\<open>tracking_mode\<close> other
  than \<^verbatim>\<open>'FILE_BASED'\<close> and \<^verbatim>\<open>'STANDALONE'\<close> be treated as absent, so that the result is
  always one of the two. On \<^verbatim>\<open>{ tracking_mode: "ARCHIVED" }\<close>, which has no identifier,
  the function returns \<^verbatim>\<open>"ARCHIVED"\<close>, while \<^verbatim>\<open>isStandaloneTask\<close> does treat the value as
  absent and answers \<^verbatim>\<open>true\<close>.
\<close>

theorem getTrackingMode_invalid_explicit:
  "getTrackingMode invalid_mode_store (JRef 0) = Inr (JStr ''ARCHIVED'')
   \<and> getFileId invalid_mode_store (JRef 0) = Inr JNull
   \<and> isStandaloneTask invalid_mode_store (JRef 0) = Inr True"
  by (simp add: invalid_mode_store_def getTrackingMode_def isStandaloneTask_def
        getFileId_def opt_get_def own_prop_def deref_def)

text \<open>
  C10. On a falsy argument (\<^verbatim>\<open>null\<close>, \<^verbatim>\<open>undefined\<close>, \<^verbatim>\<open>false\<close>, \<^verbatim>\<open>0\<close>, \<^verbatim>\<open>NaN\<close>, the
  empty string) \<^verbatim>\<open>isStandaloneTask\<close> returns \<^verbatim>\<open>false\<close> while \<^verbatim>\<open>getTrackingMode\<close>
  returns \<^verbatim>\<open>'STANDALONE'\<close>: the two disagree on absent input.
\<close>

theorem absent_task_disagreement:
  "\<not> truthy task \<Longrightarrow>
     isStandaloneTask h task = Inr False \<and> getTrackingMode h task = Inr (JStr ''STANDALONE'')"
  by (simp add: isStandaloneTask_def getTrackingMode_def)

theorem absent_task_disagreement_witness:
  "\<not> truthy JNull \<and> isStandaloneTask [] JNull = Inr False
     \<and> getTrackingMode [] JNull = Inr (JStr ''STANDALONE'')"
  using absent_task_disagreement [of JNull "[]"] by simp

subsection \<open>Identifier resolution\<close>

lemma own_prop_absent: "own_prop h JUndefined k = JUndefined" "own_prop h JNull k = JUndefined"
  by (simp_all add: own_prop_def)

text \<open>
  C9. When the top-level \<^verbatim>\<open>file_id\<close> of a record is truthy, \<^verbatim>\<open>getFileId\<close> returns it,
  whatever the legacy and nested identifier fields hold.
\<close>

theorem getFileId_current_top_level:
  "truthy item \<Longrightarrow> truthy (own_prop h item ''file_id'') \<Longrightarrow>
     getFileId h item = Inr (own_prop h item ''file_id'')"
  by (simp add: getFileId_def)

theorem getFileId_current_top_level_witness:
  "truthy (JRef 1) \<and> truthy (own_prop migrated_store (JRef 1) ''file_id'')
   \<and> own_prop migrated_store (JRef 1) ''permit_file_id'' = JStr ''OLD1''
   \<and> getFileId migrated_store (JRef 1) = Inr (JStr ''F2'')"
proof -
  have r: "own_prop migrated_store (JRef 1) ''file_id'' = JStr ''F2''"
    and l: "own_prop migrated_store (JRef 1) ''permit_file_id'' = JStr ''OLD1''"
    by (simp_all add: migrated_store_def own_prop_def deref_def)
  from getFileId_current_top_level [of "JRef 1" migrated_store, unfolded r] r l
  show ?thesis by simp
qed

text \<open>
  C2, as the code has it. When neither top-level identifier field of a record is truthy
  and its \<^verbatim>\<open>source\<close> carries a truthy \<^verbatim>\<open>file_id\<close> and a truthy \<^verbatim>\<open>permit_file_id\<close>,
  \<^verbatim>\<open>getFileId\<close> returns \<^verbatim>\<open>source.permit_file_id\<close>: in the nested object the legacy
  field is probed before the current one.
\<close>

theorem getFileId_nested_legacy_first:
  assumes "truthy item"
    and "\<not> truthy (own_prop h item ''file_id'')"
    and "\<not> truthy (own_prop h item ''permit_file_id'')"
    and "truthy (own_prop h (own_prop h item ''source'') ''file_id'')"
    and "truthy (own_prop h (own_prop h item ''source'') ''permit_file_id'')"
  shows "getFileId h item = Inr (own_prop h (own_prop h item ''source'') ''permit_file_id'')"
proof -
  let ?s = "own_prop h item ''source''"
  have "?s \<noteq> JUndefined \<and> ?s \<noteq> JNull"
    using assms(5) by (auto simp: own_prop_absent)
  with assms show ?thesis
    by (simp add: getFileId_def opt_get_total)
qed

theorem getFileId_nested_legacy_first_witness:
  "truthy (JRef 1)
   \<and> \<not> truthy (own_prop nested_both_store (JRef 1) ''file_id'')
   \<and> \<not> truthy (own_prop nested_both_store (JRef 1) ''permit_file_id'')
   \<and> own_prop nested_both_store (JRef 1) ''source'' = JRef 0
   \<and> truthy (own_prop nested_both_store (JRef 0) ''file_id'')
   \<and> truthy (own_prop nested_both_store (JRef 0) ''permit_file_id'')
   \<and> getFileId nested_both_store (JRef 1) = Inr (JStr ''LEG'')"
proof -
  have r: "own_prop nested_both_store (JRef 1) ''file_id'' = JUndefined"
    "own_prop nested_both_store (JRef 1) ''permit_file_id'' = JUndefined"
    "own_prop nested_both_store (JRef 1) ''source'' = JRef 0"
    "own_prop nested_both_store (JRef 0) ''file_id'' = JStr ''CUR''"
    "own_prop nested_both_store (JRef 0) ''permit_file_id'' = JStr ''LEG''"
    by (simp_all add: nested_both_store_def own_prop_def deref_def)
  from getFileId_nested_legacy_first [of "JRef 1" nested_both_store, unfolded r] r
  show ?thesis by simp
qed

text \<open>
  The record \<^verbatim>\<open>{ source: { file_id: "CUR", permit_file_id: "LEG" } }\<close> meets the
  conditions of C2, and \<^verbatim>\<open>getFileId\<close> does not return the nested current field.
\<close>

theorem getFileId_nested_current_counterexample:
  "truthy (JRef 1)
   \<and> \<not> truthy (own_prop nested_both_store (JRef 1) ''file_id'')
   \<and> \<not> truthy (own_prop nested_both_store (JRef 1) ''permit_file_id'')
   \<and> own_prop nested_both_store (JRef 1) ''source'' = JRef 0
   \<and> truthy (own_prop nested_both_store (JRef 0) ''file_id'')
   \<and> truthy (own_prop nested_both_store (JRef 0) ''permit_file_id'')
   \<and> getFileId nested_both_store (JRef 1) \<noteq> Inr (own_prop nested_both_store (JRef 0) ''file_id'')"
  by (simp add: nested_both_store_def getFileId_def opt_get_def own_prop_def deref_def)

text \<open>
  C5. Re-resolving a normalized record gives the same identifier:
  \<^verbatim>\<open>getFileId(normalizeTask(t)) = getFileId(t)\<close>, for every value \<^verbatim>\<open>t\<close> of a store
  without dangling references; \<^verbatim>\<open>normalizeTask\<close> returns on every such \<^verbatim>\<open>t\<close>.
\<close>

theorem getFileId_normalizeTask_idempotent:
  assumes "heap_closed h" and "val_ok h t"
  shows "\<exists>h' r. normalizeTask h t = Inr (h', r) \<and> getFileId h' r = getFileId h t"
proof (cases "truthy t")
  case False
  then show ?thesis by (simp add: normalizeTask_def)
next
  case True
  obtain ps where ps: "normalized_props h t = Inr ps"
    using normalized_props_total [OF True] by blast
  let ?h = "h @ [Plain ps]" and ?r = "JRef (length h)"
  let ?s = "own_prop h t ''source''"
  let ?rest = "js_or (Inr (own_prop h t ''permit_file_id''))
                (js_or (opt_get h ?s ''permit_file_id'')
                (js_or (opt_get h ?s ''file_id'') (Inr JNull)))"
  obtain f where f: "getFileId h t = Inr f" and fid: "map_of ps ''file_id'' = Some f"
    using normalized_props_file_id [OF ps] by blast
  have old: "getFileId h t = js_or (Inr (own_prop h t ''file_id'')) ?rest"
    using True by (simp add: getFileId_def)
  have s_ok: "val_ok h ?s"
    using assms(1) by (rule own_prop_val_ok)
  have "own_prop ?h ?r ''file_id'' = f"
    using fid by (simp add: own_prop_fresh)
  moreover have "own_prop ?h ?r ''permit_file_id'' = own_prop h t ''permit_file_id''"
    using ps by (rule own_prop_normalized) simp_all
  moreover have "own_prop ?h ?r ''source'' = ?s"
    using ps by (rule own_prop_normalized) simp_all
  ultimately have new: "getFileId ?h ?r = js_or (Inr f) ?rest"
    using s_ok by (simp add: getFileId_def opt_get_append)
  have "getFileId ?h ?r = Inr f"
  proof (cases "truthy f")
    case True
    with new show ?thesis by simp
  next
    case False
    with old f have "?rest = Inr f" by (auto split: if_splits)
    with new False show ?thesis by simp
  qed
  with f ps True show ?thesis
    by (simp add: normalizeTask_truthy)
qed

theorem getFileId_normalizeTask_idempotent_witness:
  "heap_closed legacy_store \<and> val_ok legacy_store (JRef 0) \<and>
   (\<exists>h' r. normalizeTask legacy_store (JRef 0) = Inr (h', r)
      \<and> getFileId h' r = getFileId legacy_store (JRef 0))"
  using getFileId_normalizeTask_idempotent [of legacy_store "JRef 0"] legacy_store_closed
  by simp

subsection \<open>Normalization\<close>

text \<open>
  C3. The \<^verbatim>\<open>assigned_to\<close> that \<^verbatim>\<open>normalizeTask\<close> writes is meant to be the value of
  \<^verbatim>\<open>getAssignedTo\<close>. On \<^verbatim>\<open>{ assigned_to_employee_code: "E7" }\<close> the new object has
  \<^verbatim>\<open>assigned_to: undefined\<close>, while \<^verbatim>\<open>getAssignedTo\<close> returns \<^verbatim>\<open>"E7"\<close>: the chain in
  \<^verbatim>\<open>normalizeTask\<close> stops at \<^verbatim>\<open>employee_code\<close>.
\<close>

theorem normalizeTask_misses_fourth_field:
  "normalizeTask fourth_field_store (JRef 0) =
     Inr (fourth_field_store @
            [Plain [(''assigned_to_employee_code'', JStr ''E7''), (''file_id'', JNull),
                    (''tracking_mode'', JStr ''STANDALONE''),
                    (''assigned_to'', JUndefined)]],
          JRef 1)
   \<and> getAssignedTo fourth_field_store (JRef 0) = Inr (JStr ''E7'')"
  by (simp add: fourth_field_store_def normalizeTask_def normalized_props_def
        getTrackingMode_def getAssignedTo_def getFileId_def alloc_def opt_get_def
        own_prop_def deref_def)

text \<open>
  C7. \<^verbatim>\<open>normalizeTask\<close> returns a falsy argument as it is and leaves the store as it
  is. On any other value of the store it returns a reference to a new object, at an
  address the store did not have; every object the store had, the argument among them,
  is unchanged; and every own enumerable property of the argument other than
  \<^verbatim>\<open>file_id\<close>, \<^verbatim>\<open>tracking_mode\<close> and \<^verbatim>\<open>assigned_to\<close> is a property of the new
  object with the same value.
\<close>

theorem normalizeTask_frame:
  assumes "val_ok h task"
  shows "if \<not> truthy task then normalizeTask h task = Inr (h, task)
         else \<exists>h' r. normalizeTask h task = Inr (h', r)
                \<and> r = JRef (length h) \<and> r \<noteq> task \<and> length h' = Suc (length h)
                \<and> (\<forall>a < length h. deref h' a = deref h a)
                \<and> (\<forall>k v. map_of (spread h task) k = Some v
                       \<and> k \<noteq> ''file_id'' \<and> k \<noteq> ''tracking_mode'' \<and> k \<noteq> ''assigned_to''
                     \<longrightarrow> map_of (spread h' r) k = Some v)"
proof (cases "truthy task")
  case False
  then show ?thesis by (simp add: normalizeTask_def)
next
  case True
  obtain ps where ps: "normalized_props h task = Inr ps"
    using normalized_props_total [OF True] by blast
  have "JRef (length h) \<noteq> task"
    using assms by auto
  moreover have "map_of (spread (h @ [Plain ps]) (JRef (length h))) k = Some v"
    if "map_of (spread h task) k = Some v" and "k \<noteq> ''file_id''"
      and "k \<noteq> ''tracking_mode''" and "k \<noteq> ''assigned_to''" for k v
    using normalized_props_lookup [OF ps that(2-4)] that(1) by simp
  ultimately show ?thesis
    using True ps by (simp add: normalizeTask_truthy deref_append)
qed

theorem normalizeTask_frame_witness:
  "val_ok legacy_store (JRef 0) \<and> truthy (JRef 0) \<and>
   (\<exists>h' r. normalizeTask legacy_store (JRef 0) = Inr (h', r)
      \<and> r = JRef 1 \<and> r \<noteq> JRef 0 \<and> length h' = 2
      \<and> deref h' 0 = deref legacy_store 0
      \<and> map_of (spread h' r) ''permit_file_id'' = Some (JStr ''F1'')
      \<and> map_of (spread h' r) ''title'' = Some (JStr ''Survey''))"
proof -
  have ok: "val_ok legacy_store (JRef 0)"
    by (simp add: legacy_store_def)
  have p: "map_of (spread legacy_store (JRef 0)) ''permit_file_id'' = Some (JStr ''F1'')"
    and q: "map_of (spread legacy_store (JRef 0)) ''title'' = Some (JStr ''Survey'')"
    by (simp_all add: legacy_store_def deref_def)
  have len: "length legacy_store = 1"
    by (simp add: legacy_store_def)
  from normalizeTask_frame [OF ok] obtain h' r where
    r: "normalizeTask legacy_store (JRef 0) = Inr (h', r)" "r = JRef (length legacy_store)"
      "r \<noteq> JRef 0" "length h' = Suc (length legacy_store)"
      "\<forall>a < length legacy_store. deref h' a = deref legacy_store a"
    and keys: "\<forall>k v. map_of (spread legacy_store (JRef 0)) k = Some v
                 \<and> k \<noteq> ''file_id'' \<and> k \<noteq> ''tracking_mode'' \<and> k \<noteq> ''assigned_to''
               \<longrightarrow> map_of (spread h' r) k = Some v"
    by auto
  from keys p have "map_of (spread h' r) ''permit_file_id'' = Some (JStr ''F1'')"
    by simp
  moreover from keys q have "map_of (spread h' r) ''title'' = Some (JStr ''Survey'')"
    by simp
  ultimately show ?thesis
    using r ok len by auto
qed

text \<open>
  C8. \<^verbatim>\<open>normalizeTasks\<close> returns a new empty array when its argument is not an array.
  On an array it returns a new array of the same length whose element at each index is
  what \<^verbatim>\<open>normalizeTask\<close> returns for the argument's element at that index.
\<close>

theorem normalizeTasks_elementwise:
  assumes "heap_closed h"
  shows "case array_elems h tasks of
           None \<Rightarrow> normalizeTasks h tasks = Inr (h @ [Arr []], JRef (length h))
         | Some xs \<Rightarrow>
             \<exists>h' ys. normalizeTasks h tasks = Inr (h' @ [Arr ys], JRef (length h'))
               \<and> length ys = length xs
               \<and> (\<forall>i < length xs. normalized_copy h (xs ! i) (h' @ [Arr ys]) (ys ! i))"
proof (cases "array_elems h tasks")
  case None
  then show ?thesis by (simp add: normalizeTasks_def alloc_def)
next
  case (Some xs)
  have "list_all (val_ok h) xs"
    using assms Some by (rule array_elems_ok)
  from map_normalizeTask_elementwise [OF assms this, of "[]"] obtain hf ys where
    run: "map_normalizeTask h xs = Inr (hf, ys)"
    and ok: "list_all (val_ok hf) ys"
    and rel: "list_all2 (\<lambda>x y. normalized_copy h x hf y) xs ys"
    by auto
  have len: "length ys = length xs"
    using rel by (simp add: list_all2_lengthD)
  have "normalized_copy h (xs ! i) (hf @ [Arr ys]) (ys ! i)" if "i < length xs" for i
  proof -
    have "normalized_copy h (xs ! i) hf (ys ! i)"
      using list_all2_nthD [OF rel that] .
    moreover have "val_ok hf (ys ! i)"
      using ok that len by (simp add: list_all_length)
    ultimately show ?thesis by (rule normalized_copy_append)
  qed
  with Some run len show ?thesis
    by (simp add: normalizeTasks_def alloc_def)
qed

theorem normalizeTasks_elementwise_witness:
  "heap_closed task_list_store
   \<and> array_elems task_list_store (JRef 1) = Some [JRef 0, JNull, JStr ''ab'']
   \<and> (\<exists>h' ys. normalizeTasks task_list_store (JRef 1) = Inr (h' @ [Arr ys], JRef (length h'))
         \<and> length ys = length [JRef 0, JNull, JStr ''ab'']
         \<and> (\<forall>i < length [JRef 0, JNull, JStr ''ab''].
               normalized_copy task_list_store ([JRef 0, JNull, JStr ''ab''] ! i)
                 (h' @ [Arr ys]) (ys ! i)))
   \<and> array_elems task_list_store (JRef 0) = None
   \<and> normalizeTasks task_list_store (JRef 0) =
       Inr (task_list_store @ [Arr []], JRef (length task_list_store))"
proof -
  have a: "array_elems task_list_store (JRef 1) = Some [JRef 0, JNull, JStr ''ab'']"
    and b: "array_elems task_list_store (JRef 0) = None"
    by (simp_all add: task_list_store_def deref_def)
  note on_array = normalizeTasks_elementwise
    [OF task_list_store_closed, of "JRef 1", unfolded a option.case]
  note on_object = normalizeTasks_elementwise
    [OF task_list_store_closed, of "JRef 0", unfolded b option.case]
  from task_list_store_closed a on_array b on_object show ?thesis
    by (intro conjI)
qed

subsection \<open>Assignment information and totality\<close>

text \<open>
  C6. \<^verbatim>\<open>getAssignmentInfo\<close> never mixes the two shapes. When \<^verbatim>\<open>current_assignment\<close>
  is truthy, every field of the result is read from it (\<^verbatim>\<open>employee_code\<close>,
  \<^verbatim>\<open>employee_name\<close>, a \<^verbatim>\<open>Date\<close> of its \<^verbatim>\<open>assigned_at\<close>, \<^verbatim>\<open>stage\<close>). Otherwise, when
  \<^verbatim>\<open>assignment\<close> is truthy, every field is read from it (\<^verbatim>\<open>assigned_to\<close>, a
  \<^verbatim>\<open>Date\<close> of its \<^verbatim>\<open>assigned_at\<close>, \<^verbatim>\<open>assigned_for_stage\<close>) and \<^verbatim>\<open>assignedToName\<close> is
  \<^verbatim>\<open>undefined\<close>. Otherwise the result is \<^verbatim>\<open>null\<close>. A result is built whenever the
  \<^verbatim>\<open>Date\<close> constructor accepts the \<^verbatim>\<open>assigned_at\<close> value.
\<close>

theorem getAssignmentInfo_no_mixing:
  assumes "heap_closed h" and "val_ok h file"
  shows "getAssignmentInfo h file =
     (let ca = own_prop h file ''current_assignment'';
          la = own_prop h file ''assignment''
      in if truthy file \<and> truthy ca then
           (if date_arg_ok h (own_prop h ca ''assigned_at'')
            then Inr (h @ [DateObj (own_prop h ca ''assigned_at''),
                           Plain [(''assignedTo'', own_prop h ca ''employee_code''),
                                  (''assignedToName'', own_prop h ca ''employee_name''),
                                  (''assignedAt'', JRef (length h)),
                                  (''stage'', own_prop h ca ''stage'')]],
                     JRef (Suc (length h)))
            else Inl TypeError)
         else if truthy file \<and> truthy la then
           (if date_arg_ok h (own_prop h la ''assigned_at'')
            then Inr (h @ [DateObj (own_prop h la ''assigned_at''),
                           Plain [(''assignedTo'', own_prop h la ''assigned_to''),
                                  (''assignedToName'', JUndefined),
                                  (''assignedAt'', JRef (length h)),
                                  (''stage'', own_prop h la ''assigned_for_stage'')]],
                     JRef (Suc (length h)))
            else Inl TypeError)
         else Inr (h, JNull))"
proof -
  let ?ca = "own_prop h file ''current_assignment''"
  let ?la = "own_prop h file ''assignment''"
  have ca: "own_prop (h @ e) ?ca k = own_prop h ?ca k" for e k
    using own_prop_val_ok [OF assms(1)] by (rule own_prop_append)
  have la: "own_prop (h @ e) ?la k = own_prop h ?la k" for e k
    using own_prop_val_ok [OF assms(1)] by (rule own_prop_append)
  consider (cur) "truthy file" "truthy ?ca"
    | (leg) "truthy file" "\<not> truthy ?ca" "truthy ?la"
    | (none) "\<not> truthy file \<or> \<not> truthy ?ca \<and> \<not> truthy ?la"
    by blast
  then show ?thesis
  proof cases
    case cur
    then show ?thesis
      by (simp add: getAssignmentInfo_current ca Let_def)
  next
    case leg
    then show ?thesis
      by (simp add: getAssignmentInfo_legacy la Let_def)
  next
    case none
    then show ?thesis
      using getAssignmentInfo_none [OF none] by (auto simp: Let_def)
  qed
qed

theorem getAssignmentInfo_no_mixing_witness:
  "heap_closed legacy_assignment_store \<and> val_ok legacy_assignment_store (JRef 1)
   \<and> getAssignmentInfo legacy_assignment_store (JRef 1) =
       Inr (legacy_assignment_store @
              [DateObj (JStr ''2024-01-01T00:00:00Z''),
               Plain [(''assignedTo'', JStr ''E1''), (''assignedToName'', JUndefined),
                      (''assignedAt'', JRef 2), (''stage'', JStr ''review'')]],
            JRef 3)
   \<and> heap_closed both_assignments_store \<and> val_ok both_assignments_store (JRef 2)
   \<and> getAssignmentInfo both_assignments_store (JRef 2) =
       Inr (both_assignments_store @
              [DateObj (JNum 7),
               Plain [(''assignedTo'', JStr ''E2''), (''assignedToName'', JStr ''Ann''),
                      (''assignedAt'', JRef 3), (''stage'', JStr ''qa'')]],
            JRef 4)"
proof -
  have l: "own_prop legacy_assignment_store (JRef 1) ''current_assignment'' = JUndefined"
    "own_prop legacy_assignment_store (JRef 1) ''assignment'' = JRef 0"
    "own_prop legacy_assignment_store (JRef 0) ''assigned_to'' = JStr ''E1''"
    "own_prop legacy_assignment_store (JRef 0) ''assigned_at'' = JStr ''2024-01-01T00:00:00Z''"
    "own_prop legacy_assignment_store (JRef 0) ''assigned_for_stage'' = JStr ''review''"
    "length legacy_assignment_store = 2"
    by (simp_all add: legacy_assignment_store_def own_prop_def deref_def)
  have b: "own_prop both_assignments_store (JRef 2) ''current_assignment'' = JRef 1"
    "own_prop both_assignments_store (JRef 1) ''employee_code'' = JStr ''E2''"
    "own_prop both_assignments_store (JRef 1) ''employee_name'' = JStr ''Ann''"
    "own_prop both_assignments_store (JRef 1) ''assigned_at'' = JNum 7"
    "own_prop both_assignments_store (JRef 1) ''stage'' = JStr ''qa''"
    "length both_assignments_store = 3"
    by (simp_all add: both_assignments_store_def own_prop_def deref_def)
  have "getAssignmentInfo legacy_assignment_store (JRef 1) =
       Inr (legacy_assignment_store @
              [DateObj (JStr ''2024-01-01T00:00:00Z''),
               Plain [(''assignedTo'', JStr ''E1''), (''assignedToName'', JUndefined),
                      (''assignedAt'', JRef 2), (''stage'', JStr ''review'')]],
            JRef 3)"
    using getAssignmentInfo_no_mixing [of legacy_assignment_store "JRef 1", unfolded Let_def l]
      legacy_assignment_store_closed
    by (simp add: date_arg_ok_def)
  moreover have "getAssignmentInfo both_assignments_store (JRef 2) =
       Inr (both_assignments_store @
              [DateObj (JNum 7),
               Plain [(''assignedTo'', JStr ''E2''), (''assignedToName'', JStr ''Ann''),
                      (''assignedAt'', JRef 3), (''stage'', JStr ''qa'')]],
            JRef 4)"
    using getAssignmentInfo_no_mixing [of both_assignments_store "JRef 2", unfolded Let_def b]
      both_assignments_store_closed
    by (simp add: date_arg_ok_def)
  ultimately show ?thesis
    using legacy_assignment_store_closed both_assignments_store_closed by simp
qed

subsection \<open>The values the helpers return\<close>














end
